theory Spec2Isabelle
  imports Complex_Main
begin

section \<open>Agent identity middleware: the data model\<close>

text \<open>
  The development embeds \<^verbatim>\<open>src/landing/docs/integrations/fastapi-middleware.py\<close>.
  The module keeps one dictionary \<^verbatim>\<open>_cache\<close>, asks a remote service with one HTTP GET and
  raises \<^verbatim>\<open>HTTPException\<close> from its gates. In the embedding the dictionary is passed in and
  returned, the answer of the remote service and the readings of the clock are taken from an
  environment, every request that is sent is recorded, and an exception is a value.
  A call is taken alone: no other coroutine touches the dictionary while the call waits for
  the response. What the module prints is left out.
\<close>

subsection \<open>Python floats and their comparison\<close>

text \<open>
  A Python \<^verbatim>\<open>float\<close> is a finite number, an infinity or NaN. Finite doubles are compared as
  the real numbers they denote; every ordered comparison with NaN is false.
\<close>

datatype pyfloat = Fin real | PosInf | NegInf | NaN

fun float_lt :: "pyfloat \<Rightarrow> pyfloat \<Rightarrow> bool" where
  "float_lt NaN y = False"
| "float_lt x NaN = False"
| "float_lt (Fin a) (Fin b) = (a < b)"
| "float_lt (Fin a) PosInf = True"
| "float_lt (Fin a) NegInf = False"
| "float_lt NegInf NegInf = False"
| "float_lt NegInf y = True"
| "float_lt PosInf y = False"

definition float_ge :: "pyfloat \<Rightarrow> pyfloat \<Rightarrow> bool" where
  "float_ge x y = (x \<noteq> NaN \<and> y \<noteq> NaN \<and> \<not> float_lt x y)"

subsection \<open>Decoded JSON and Python truthiness\<close>

text \<open>
  What \<^verbatim>\<open>response.json()\<close> can return: \<^verbatim>\<open>None\<close>, a bool, an int, a float, a str, a list or
  a dict with string keys (its items; the keys of a dict are distinct).
\<close>

datatype json =
    JNull
  | JBool bool
  | JInt int
  | JFloat pyfloat
  | JStr string
  | JArr "json list"
  | JObj "(string \<times> json) list"

text \<open>The truth value Python gives a decoded JSON value in \<^verbatim>\<open>if v:\<close>.\<close>

fun truthy :: "json \<Rightarrow> bool" where
  "truthy JNull = False"
| "truthy (JBool b) = b"
| "truthy (JInt n) = (n \<noteq> 0)"
| "truthy (JFloat f) = (f \<noteq> Fin 0)"
| "truthy (JStr s) = (s \<noteq> [])"
| "truthy (JArr xs) = (xs \<noteq> [])"
| "truthy (JObj kvs) = (kvs \<noteq> [])"

text \<open>\<^verbatim>\<open>data.get(key)\<close> on a dict, followed by the truth test: a missing key gives \<^verbatim>\<open>None\<close>.\<close>

definition get_truthy :: "(string \<times> json) list \<Rightarrow> string \<Rightarrow> bool" where
  "get_truthy data k = (case map_of data k of None \<Rightarrow> False | Some v \<Rightarrow> truthy v)"

subsection \<open>The identity record\<close>

record AgentIdentity =
  verified :: bool
  did :: string
  name :: string
  reputation :: pyfloat
  tasks_completed :: int
  registered_at :: string
  flags :: int
  verification_url :: string

text \<open>
  \<^verbatim>\<open>AgentIdentity(**data)\<close> is pydantic's model validation: every field is required, a key
  that is no field is ignored, and each value is validated against the field's type; a
  failure raises \<^verbatim>\<open>ValidationError\<close>.

  The validation of a \<^verbatim>\<open>bool\<close> field is written out, since the verifier tests the raw flag
  before the record is built: a bool is kept, the numbers 0 and 1 and the strings below (in
  any letter case) are converted, and everything else is refused.
\<close>

definition ascii_lower :: "char \<Rightarrow> char" where
  "ascii_lower c =
     (case map_of (zip ''ABCDEFGHIJKLMNOPQRSTUVWXYZ'' ''abcdefghijklmnopqrstuvwxyz'') c of
        None \<Rightarrow> c
      | Some l \<Rightarrow> l)"

definition BOOL_FALSE :: "string list" where
  "BOOL_FALSE = [''0'', ''off'', ''f'', ''false'', ''n'', ''no'']"

definition BOOL_TRUE :: "string list" where
  "BOOL_TRUE = [''1'', ''on'', ''t'', ''true'', ''y'', ''yes'']"

fun validate_bool :: "json \<Rightarrow> bool option" where
  "validate_bool (JBool b) = Some b"
| "validate_bool (JInt n) = (if n = 0 then Some False else if n = 1 then Some True else None)"
| "validate_bool (JFloat f) =
     (if f = Fin 0 then Some False else if f = Fin 1 then Some True else None)"
| "validate_bool (JStr s) =
     (if map ascii_lower s \<in> set BOOL_FALSE then Some False
      else if map ascii_lower s \<in> set BOOL_TRUE then Some True
      else None)"
| "validate_bool JNull = None"
| "validate_bool (JArr xs) = None"
| "validate_bool (JObj kvs) = None"

text \<open>
  The validation of the \<^verbatim>\<open>str\<close>, \<^verbatim>\<open>float\<close> and \<^verbatim>\<open>int\<close> fields belongs to the library
  and is not part of the module; it is a parameter of the model, with \<open>None\<close> for a refused
  value.
\<close>

record validators =
  validate_str :: "json \<Rightarrow> string option"
  validate_float :: "json \<Rightarrow> pyfloat option"
  validate_int :: "json \<Rightarrow> int option"

definition field :: "(string \<times> json) list \<Rightarrow> string \<Rightarrow> (json \<Rightarrow> 'a option) \<Rightarrow> 'a option" where
  "field data k validate = (case map_of data k of None \<Rightarrow> None | Some v \<Rightarrow> validate v)"

definition AgentIdentity_init :: "validators \<Rightarrow> (string \<times> json) list \<Rightarrow> AgentIdentity option" where
  "AgentIdentity_init V data =
     Option.bind (field data ''verified'' validate_bool) (\<lambda>f_verified.
     Option.bind (field data ''did'' (validate_str V)) (\<lambda>f_did.
     Option.bind (field data ''name'' (validate_str V)) (\<lambda>f_name.
     Option.bind (field data ''reputation'' (validate_float V)) (\<lambda>f_reputation.
     Option.bind (field data ''tasks_completed'' (validate_int V)) (\<lambda>f_tasks.
     Option.bind (field data ''registered_at'' (validate_str V)) (\<lambda>f_registered.
     Option.bind (field data ''flags'' (validate_int V)) (\<lambda>f_flags.
     Option.bind (field data ''verification_url'' (validate_str V)) (\<lambda>f_url.
       Some \<lparr>verified = f_verified, did = f_did, name = f_name, reputation = f_reputation,
             tasks_completed = f_tasks, registered_at = f_registered, flags = f_flags,
             verification_url = f_url\<rparr>))))))))"

section \<open>The environment of a call and its outcome\<close>

text \<open>
  \<^verbatim>\<open>datetime.now()\<close> is a count of microseconds; \<^verbatim>\<open>CACHE_TTL\<close> is five minutes.
\<close>

type_synonym datetime = int

definition CACHE_TTL :: int where
  "CACHE_TTL = 5 * 60 * 1000000"

definition AGENT_IDENTITY_API :: string where
  "AGENT_IDENTITY_API = ''https://agent-identity.onrender.com''"

text \<open>
  What \<^verbatim>\<open>client.get(url, timeout=10.0)\<close> does: it raises (no connection, timeout, bad
  URL), or it returns a response with a status code whose \<^verbatim>\<open>json()\<close> either raises
  (\<open>None\<close>) or decodes the body.
\<close>

datatype http_outcome = TransportError | HttpResponse int "json option"

text \<open>
  The environment of one call: the answer of the remote service to a URL, the clock read at
  the cache lookup (line 59), the clock read when the outcome is stored (lines 77 and 80),
  and the library's field validation.
\<close>

record env =
  remote :: "string \<Rightarrow> http_outcome"
  now_lookup :: datetime
  now_store :: datetime
  pydantic :: validators

type_synonym cache = "string \<rightharpoonup> (datetime \<times> AgentIdentity option)"

text \<open>
  The outcome of a call: what it returns, the dictionary \<^verbatim>\<open>_cache\<close> as the call leaves it,
  and the URLs it has requested, in order.
\<close>

record 'a outcome =
  returned :: 'a
  cache_after :: cache
  requests :: "string list"

section \<open>The identity verifier\<close>

datatype exn = RequestExn | JSONDecodeExn | AttributeExn | ValidationExn

definition verify_url :: "string \<Rightarrow> string" where
  "verify_url d = AGENT_IDENTITY_API @ ''/verify/'' @ d"

text \<open>
  The body of the \<^verbatim>\<open>try\<close> (lines 63 to 81). It ends in a \<^verbatim>\<open>return\<close> (\<open>Inr\<close>) or in an
  exception (\<open>Inl\<close>): of the request, of \<^verbatim>\<open>response.json()\<close>, of \<^verbatim>\<open>data.get\<close> when the body is
  no dict, or of the validation of the record. The dictionary is the one at that moment.
\<close>

definition try_body :: "env \<Rightarrow> cache \<Rightarrow> string \<Rightarrow> (exn + AgentIdentity option) outcome" where
  "try_body e c d =
     (case remote e (verify_url d) of
        TransportError \<Rightarrow>
          \<lparr>returned = Inl RequestExn, cache_after = c, requests = [verify_url d]\<rparr>
      | HttpResponse status_code body \<Rightarrow>
          if status_code \<noteq> 200 then
            \<lparr>returned = Inr None, cache_after = c, requests = [verify_url d]\<rparr>
          else
            (case body of
               None \<Rightarrow>
                 \<lparr>returned = Inl JSONDecodeExn, cache_after = c, requests = [verify_url d]\<rparr>
             | Some (JObj data) \<Rightarrow>
                 if get_truthy data ''verified'' then
                   (case AgentIdentity_init (pydantic e) data of
                      None \<Rightarrow>
                        \<lparr>returned = Inl ValidationExn, cache_after = c,
                         requests = [verify_url d]\<rparr>
                    | Some agent \<Rightarrow>
                        \<lparr>returned = Inr (Some agent),
                         cache_after = c(d \<mapsto> (now_store e, Some agent)),
                         requests = [verify_url d]\<rparr>)
                 else
                   \<lparr>returned = Inr None, cache_after = c(d \<mapsto> (now_store e, None)),
                    requests = [verify_url d]\<rparr>
             | Some _ \<Rightarrow>
                 \<lparr>returned = Inl AttributeExn, cache_after = c, requests = [verify_url d]\<rparr>))"

text \<open>
  The \<^verbatim>\<open>try\<close> with its handler \<^verbatim>\<open>except Exception\<close> (lines 62 to 85): an exception is
  printed and \<^verbatim>\<open>None\<close> is returned.
\<close>

definition fetch :: "env \<Rightarrow> cache \<Rightarrow> string \<Rightarrow> AgentIdentity option outcome" where
  "fetch e c d =
     (let r = try_body e c d in
      case returned r of
        Inl ex \<Rightarrow> \<lparr>returned = None, cache_after = cache_after r, requests = requests r\<rparr>
      | Inr v \<Rightarrow> \<lparr>returned = v, cache_after = cache_after r, requests = requests r\<rparr>)"

definition verify_agent :: "env \<Rightarrow> cache \<Rightarrow> string \<Rightarrow> AgentIdentity option outcome" where
  "verify_agent e c d =
     (case c d of
        Some (cached_time, cached_data) \<Rightarrow>
          if now_lookup e < cached_time + CACHE_TTL then
            \<lparr>returned = cached_data, cache_after = c, requests = []\<rparr>
          else fetch e c d
      | None \<Rightarrow> fetch e c d)"

section \<open>The gates\<close>

text \<open>
  An \<^verbatim>\<open>HTTPException\<close> carries a status code and a detail dictionary, whose values are
  strings, floats and one formatted string; the formatted string is kept as its pieces.
\<close>

datatype piece = Lit string | Arg pyfloat

datatype detail_value = Text string | Number pyfloat | Formatted "piece list"

record http_exception =
  status_code :: int
  detail :: "(string \<times> detail_value) list"

text \<open>
  A header parameter is \<^verbatim>\<open>None\<close> when the request lacks the header. \<^verbatim>\<open>a or b\<close> is \<^verbatim>\<open>a\<close>
  when \<^verbatim>\<open>a\<close> is true (a string that is not empty) and \<^verbatim>\<open>b\<close> otherwise.
\<close>

definition header_truthy :: "string option \<Rightarrow> bool" where
  "header_truthy h = (case h of None \<Rightarrow> False | Some s \<Rightarrow> s \<noteq> [])"

definition py_or :: "string option \<Rightarrow> string option \<Rightarrow> string option" where
  "py_or a b = (if header_truthy a then a else b)"

definition identity_required :: http_exception where
  "identity_required =
     \<lparr>status_code = 401,
      detail = [(''error'', Text ''Agent identity required''),
                (''message'', Text ''Include X-Agent-DID header with your agent's DID''),
                (''register_url'', Text ''https://agent-identity.onrender.com/'')]\<rparr>"

definition not_verified :: "string \<Rightarrow> http_exception" where
  "not_verified agent_did =
     \<lparr>status_code = 401,
      detail = [(''error'', Text ''Agent not verified''),
                (''message'', Text ''The provided DID is not registered or verified''),
                (''did'', Text agent_did),
                (''register_url'', Text ''https://agent-identity.onrender.com/'')]\<rparr>"

definition insufficient_reputation :: "pyfloat \<Rightarrow> AgentIdentity \<Rightarrow> http_exception" where
  "insufficient_reputation min_reputation agent =
     \<lparr>status_code = 403,
      detail = [(''error'', Text ''Insufficient reputation''),
                (''message'', Formatted [Lit ''This endpoint requires minimum '',
                                         Arg min_reputation, Lit '' reputation'']),
                (''your_reputation'', Number (reputation agent)),
                (''did'', Text (did agent))]\<rparr>"

definition require_agent ::
  "env \<Rightarrow> cache \<Rightarrow> string option \<Rightarrow> string option \<Rightarrow> (http_exception + AgentIdentity) outcome" where
  "require_agent e c x_agent_did x_agent_identity =
     (case py_or x_agent_did x_agent_identity of
        None \<Rightarrow> \<lparr>returned = Inl identity_required, cache_after = c, requests = []\<rparr>
      | Some agent_did \<Rightarrow>
          if agent_did = [] then
            \<lparr>returned = Inl identity_required, cache_after = c, requests = []\<rparr>
          else
            (let r = verify_agent e c agent_did in
             case returned r of
               None \<Rightarrow>
                 \<lparr>returned = Inl (not_verified agent_did), cache_after = cache_after r,
                  requests = requests r\<rparr>
             | Some agent \<Rightarrow>
                 \<lparr>returned = Inr agent, cache_after = cache_after r, requests = requests r\<rparr>))"

text \<open>
  \<^verbatim>\<open>optional_agent\<close> has no \<^verbatim>\<open>raise\<close>; its outcome has the type of a gate's, so that what
  it never does can be said.
\<close>

definition optional_agent ::
  "env \<Rightarrow> cache \<Rightarrow> string option \<Rightarrow> string option \<Rightarrow>
     (http_exception + AgentIdentity option) outcome" where
  "optional_agent e c x_agent_did x_agent_identity =
     (case py_or x_agent_did x_agent_identity of
        None \<Rightarrow> \<lparr>returned = Inr None, cache_after = c, requests = []\<rparr>
      | Some agent_did \<Rightarrow>
          if agent_did = [] then \<lparr>returned = Inr None, cache_after = c, requests = []\<rparr>
          else
            (let r = verify_agent e c agent_did in
             \<lparr>returned = Inr (returned r), cache_after = cache_after r,
              requests = requests r\<rparr>))"

text \<open>
  \<^verbatim>\<open>require_reputation(min_reputation)\<close> returns a dependency whose argument is
  \<^verbatim>\<open>Depends(require_agent)\<close>: the framework runs \<^verbatim>\<open>require_agent\<close> on the request's headers
  first, and an exception there ends the request.
\<close>

definition require_reputation ::
  "pyfloat \<Rightarrow> env \<Rightarrow> cache \<Rightarrow> string option \<Rightarrow> string option \<Rightarrow>
     (http_exception + AgentIdentity) outcome" where
  "require_reputation min_reputation e c x_agent_did x_agent_identity =
     (let r = require_agent e c x_agent_did x_agent_identity in
      case returned r of
        Inl ex \<Rightarrow> r
      | Inr agent \<Rightarrow>
          if float_lt (reputation agent) min_reputation then
            \<lparr>returned = Inl (insufficient_reputation min_reputation agent),
             cache_after = cache_after r, requests = requests r\<rparr>
          else r)"

section \<open>The selection of the header as the specification words it\<close>

text \<open>
  The specification's sentence "first one present wins; order: primary header, then fallback
  header", taken by its words: a header that the request carries is present, whatever its
  value.
\<close>

definition spec_first_present :: "string option \<Rightarrow> string option \<Rightarrow> string option" where
  "spec_first_present primary fallback = (case primary of Some s \<Rightarrow> Some s | None \<Rightarrow> fallback)"

section \<open>Concrete inputs\<close>

text \<open>
  An instance of the field validation that accepts the JSON type of each field, a clock, and
  four answers of the remote service to the identifier \<open>did:x:1\<close>.
\<close>

definition native_validators :: validators where
  "native_validators =
     \<lparr>validate_str = (\<lambda>j. case j of JStr s \<Rightarrow> Some s | _ \<Rightarrow> None),
      validate_float = (\<lambda>j. case j of JFloat f \<Rightarrow> Some f | JInt n \<Rightarrow> Some (Fin (of_int n)) | _ \<Rightarrow> None),
      validate_int = (\<lambda>j. case j of JInt n \<Rightarrow> Some n | _ \<Rightarrow> None)\<rparr>"

definition example_env :: "http_outcome \<Rightarrow> env" where
  "example_env answer =
     \<lparr>remote = (\<lambda>url. answer), now_lookup = 1000000000, now_store = 1000000007, pydantic = native_validators\<rparr>"

definition example_body :: "json \<Rightarrow> (string \<times> json) list" where
  "example_body flag =
     [(''verified'', flag), (''did'', JStr ''did:x:1''), (''name'', JStr ''alpha''),
      (''reputation'', JFloat (Fin 4.5)), (''tasks_completed'', JInt 12),
      (''registered_at'', JStr ''2024-01-01''), (''flags'', JInt 0),
      (''verification_url'', JStr ''https://agent-identity.onrender.com/verify/did:x:1'')]"

definition example_agent :: "bool \<Rightarrow> AgentIdentity" where
  "example_agent v =
     \<lparr>verified = v, did = ''did:x:1'', name = ''alpha'', reputation = Fin 4.5,
      tasks_completed = 12, registered_at = ''2024-01-01'', flags = 0,
      verification_url = ''https://agent-identity.onrender.com/verify/did:x:1''\<rparr>"

definition approved :: http_outcome where
  "approved = HttpResponse 200 (Some (JObj (example_body (JBool True))))"

definition denied :: http_outcome where
  "denied = HttpResponse 200 (Some (JObj (example_body (JBool False))))"

definition incomplete :: http_outcome where
  "incomplete = HttpResponse 200 (Some (JObj [(''verified'', JBool True)]))"

definition denied_by_word :: http_outcome where
  "denied_by_word = HttpResponse 200 (Some (JObj (example_body (JStr ''false''))))"

lemmas example_defs =
  example_env_def example_body_def example_agent_def native_validators_def
  approved_def denied_def incomplete_def denied_by_word_def

section \<open>Facts about the verifier\<close>

subsection \<open>Requests and cache writes of one call\<close>



lemma try_body_stores_returned:
  "cache_after (try_body e c d) = c \<or>
   (\<exists>v. returned (try_body e c d) = Inr v \<and>
        cache_after (try_body e c d) = c(d \<mapsto> (now_store e, v)))"
  by (auto simp: try_body_def split: http_outcome.splits option.splits json.splits)

lemma try_body_cache_cases:
  "cache_after (try_body e c d) = c \<or> (\<exists>v. cache_after (try_body e c d) = c(d \<mapsto> (now_store e, v)))"
  by (auto simp: try_body_def split: http_outcome.splits option.splits json.splits)

lemma fetch_cache: "cache_after (fetch e c d) = cache_after (try_body e c d)"
  by (simp add: fetch_def Let_def split: sum.splits)

lemma fetch_returned: 
  "returned (fetch e c d) = Some agent \<longleftrightarrow> returned (try_body e c d) = Inr (Some agent)"
  by (auto simp: fetch_def Let_def split: sum.splits)

lemma verify_agent_cache_cases:
  "cache_after (verify_agent e c d) = c \<or>
   (\<exists>v. cache_after (verify_agent e c d) = c(d \<mapsto> (now_store e, v)))"
  using try_body_cache_cases [of e c d]
  by (auto simp: verify_agent_def fetch_cache split: option.splits)

lemma require_agent_cache_cases:
  "cache_after (require_agent e c h1 h2) = c \<or>
   (\<exists>d. cache_after (require_agent e c h1 h2) = cache_after (verify_agent e c d))"
  by (auto simp: require_agent_def Let_def split: option.splits)

lemma optional_agent_cache_cases:
  "cache_after (optional_agent e c h1 h2) = c \<or>
   (\<exists>d. cache_after (optional_agent e c h1 h2) = cache_after (verify_agent e c d))"
  by (auto simp: optional_agent_def Let_def split: option.splits)

lemma require_reputation_cache:
  "cache_after (require_reputation T e c h1 h2) = cache_after (require_agent e c h1 h2)"
  by (simp add: require_reputation_def Let_def split: sum.splits)

lemma require_reputation_requests:
  "requests (require_reputation T e c h1 h2) = requests (require_agent e c h1 h2)"
  by (simp add: require_reputation_def Let_def split: sum.splits)

subsection \<open>The paths of a call that finds no fresh entry\<close>

lemma miss_is_fetch:
  assumes "\<forall>t v. c d = Some (t, v) \<longrightarrow> \<not> now_lookup e < t + CACHE_TTL"
  shows "verify_agent e c d = fetch e c d"
  using assms by (auto simp: verify_agent_def split: option.splits)

lemma fetch_approved:
  assumes "remote e (verify_url d) = HttpResponse 200 (Some (JObj data))"
    and "get_truthy data ''verified''"
    and "AgentIdentity_init (pydantic e) data = Some agent"
  shows "fetch e c d = \<lparr>returned = Some agent, cache_after = c(d \<mapsto> (now_store e, Some agent)),
    requests = [verify_url d]\<rparr>"
  using assms by (simp add: fetch_def try_body_def)


lemma fetch_denied:
  assumes "remote e (verify_url d) = HttpResponse 200 (Some (JObj data))"
    and "\<not> get_truthy data ''verified''"
  shows "fetch e c d = \<lparr>returned = None, cache_after = c(d \<mapsto> (now_store e, None)),
    requests = [verify_url d]\<rparr>"
  using assms by (simp add: fetch_def try_body_def)

lemma fetch_raised:
  assumes "returned (try_body e c d) = Inl ex"
  shows "fetch e c d = \<lparr>returned = None, cache_after = c, requests = [verify_url d]\<rparr>"
  using assms
  by (auto simp: fetch_def try_body_def split: http_outcome.splits option.splits json.splits if_splits)

lemma fetch_bad_status:
  assumes "remote e (verify_url d) = HttpResponse status body" and "status \<noteq> 200"
  shows "fetch e c d = \<lparr>returned = None, cache_after = c, requests = [verify_url d]\<rparr>"
  using assms by (simp add: fetch_def try_body_def)

text \<open>The \<^verbatim>\<open>try\<close> raises in exactly four situations.\<close>

lemma try_body_raises_iff:
  "(\<exists>ex. returned (try_body e c d) = Inl ex) \<longleftrightarrow>
     remote e (verify_url d) = TransportError \<or>
     remote e (verify_url d) = HttpResponse 200 None \<or>
     (\<exists>j. remote e (verify_url d) = HttpResponse 200 (Some j) \<and> (\<forall>data. j \<noteq> JObj data)) \<or>
     (\<exists>data. remote e (verify_url d) = HttpResponse 200 (Some (JObj data)) \<and>
        get_truthy data ''verified'' \<and> AgentIdentity_init (pydantic e) data = None)"
  by (auto simp: try_body_def split: http_outcome.splits option.splits json.splits if_splits)

subsection \<open>The flag of a record that was built\<close>

lemma AgentIdentity_init_verified:
  assumes "AgentIdentity_init V data = Some agent"
  shows "field data ''verified'' validate_bool = Some (verified agent)"
  using assms by (auto simp: AgentIdentity_init_def split: Option.bind_splits)

lemma truthy_validate_bool:
  assumes "truthy flag" and "validate_bool flag = Some b"
    and "\<forall>s. flag = JStr s \<longrightarrow> map ascii_lower s \<notin> set BOOL_FALSE"
  shows "b"
  using assms by (cases flag) (auto split: if_splits)

lemma get_truthy_validate_bool:
  assumes "get_truthy data ''verified''"
    and "field data ''verified'' validate_bool = Some b"
    and "\<forall>s. map_of data ''verified'' = Some (JStr s) \<longrightarrow> map ascii_lower s \<notin> set BOOL_FALSE"
  shows "b"
proof (cases "map_of data ''verified''")
  case None
  with assms(1) show ?thesis by (simp add: get_truthy_def)
next
  case (Some flag)
  with assms have "truthy flag" and "validate_bool flag = Some b"
    and "\<forall>s. flag = JStr s \<longrightarrow> map ascii_lower s \<notin> set BOOL_FALSE"
    by (simp_all add: get_truthy_def field_def)
  then show ?thesis by (rule truthy_validate_bool)
qed

lemma try_body_verified:
  assumes "returned (try_body e c d) = Inr (Some agent)"
    and "\<forall>status data s. remote e (verify_url d) = HttpResponse status (Some (JObj data)) \<longrightarrow>
           map_of data ''verified'' = Some (JStr s) \<longrightarrow> map ascii_lower s \<notin> set BOOL_FALSE"
  shows "verified agent"
proof -
  from assms(1) obtain data where r: "remote e (verify_url d) = HttpResponse 200 (Some (JObj data))"
    and t: "get_truthy data ''verified''"
    and i: "AgentIdentity_init (pydantic e) data = Some agent"
    by (auto simp: try_body_def split: http_outcome.splits option.splits json.splits if_splits)
  from i have "field data ''verified'' validate_bool = Some (verified agent)"
    by (rule AgentIdentity_init_verified)
  moreover from r assms(2)
  have "\<forall>s. map_of data ''verified'' = Some (JStr s) \<longrightarrow> map ascii_lower s \<notin> set BOOL_FALSE"
    by blast
  ultimately show ?thesis
    using t by (rule get_truthy_validate_bool [rotated])
qed

text \<open>
  Where the cache holds only records whose \<open>verified\<close> field is true and the flag of the
  response is none of the strings that the validation converts to \<open>False\<close>, the records
  returned and stored have their \<open>verified\<close> field true.
\<close>

lemma verified_when_flag_not_negative_word:
  assumes inv: "\<forall>k t agent. c k = Some (t, Some agent) \<longrightarrow> verified agent"
    and flag: "\<forall>status data s.
        remote e (verify_url d) = HttpResponse status (Some (JObj data)) \<longrightarrow>
        map_of data ''verified'' = Some (JStr s) \<longrightarrow> map ascii_lower s \<notin> set BOOL_FALSE"
  shows "(\<forall>agent. returned (verify_agent e c d) = Some agent \<longrightarrow> verified agent) \<and>
    (\<forall>k t agent. cache_after (verify_agent e c d) k = Some (t, Some agent) \<longrightarrow> verified agent)"
proof -
  have f_ret: "verified agent" if "returned (fetch e c d) = Some agent" for agent
    using that flag by (simp add: fetch_returned try_body_verified)
  have f_cache: "verified agent" if "cache_after (fetch e c d) k = Some (t, Some agent)"
    for k t agent
    using try_body_stores_returned [of e c d]
  proof
    assume "cache_after (try_body e c d) = c"
    with that inv show ?thesis by (simp add: fetch_cache)
  next
    assume "\<exists>v. returned (try_body e c d) = Inr v \<and>
        cache_after (try_body e c d) = c(d \<mapsto> (now_store e, v))"
    then obtain v where v: "returned (try_body e c d) = Inr v"
      and u: "cache_after (try_body e c d) = c(d \<mapsto> (now_store e, v))" by blast
    show ?thesis
    proof (cases "k = d")
      case True
      with that u have "v = Some agent" by (simp add: fetch_cache)
      with v flag show ?thesis by (simp add: try_body_verified)
    next
      case False
      with that u inv show ?thesis by (simp add: fetch_cache)
    qed
  qed
  show ?thesis
  proof (cases "c d")
    case None
    then have "verify_agent e c d = fetch e c d" by (simp add: verify_agent_def)
    with f_ret f_cache show ?thesis by auto
  next
    case (Some entry)
    obtain cached_time cached_data where entry: "entry = (cached_time, cached_data)"
      by (cases entry)
    show ?thesis
    proof (cases "now_lookup e < cached_time + CACHE_TTL")
      case True
      with Some entry have "verify_agent e c d =
          \<lparr>returned = cached_data, cache_after = c, requests = []\<rparr>"
        by (simp add: verify_agent_def)
      with inv Some entry show ?thesis by auto
    next
      case False
      with Some entry have "verify_agent e c d = fetch e c d" by (simp add: verify_agent_def)
      with f_ret f_cache show ?thesis by auto
    qed
  qed
qed

subsection \<open>The concrete inputs, evaluated\<close>

lemma example_url: "verify_url ''did:x:1'' = ''https://agent-identity.onrender.com/verify/did:x:1''"
  by (simp add: verify_url_def AGENT_IDENTITY_API_def)

lemma example_miss:
  "\<forall>t v. (Map.empty :: cache) ''did:x:1'' = Some (t, v) \<longrightarrow> \<not> now_lookup e < t + CACHE_TTL"
  by simp

lemma example_stale:
  "\<forall>t v. [''did:x:1'' \<mapsto> (5, Some (example_agent True))] ''did:x:1'' = Some (t, v) \<longrightarrow>
     \<not> now_lookup (example_env answer) < t + CACHE_TTL"
  by (simp add: example_env_def CACHE_TTL_def)

lemma init_approved:
  "AgentIdentity_init (pydantic (example_env answer)) (example_body (JBool True)) = Some (example_agent True)"
  by (simp add: AgentIdentity_init_def field_def example_defs)

lemma init_denied_by_word:
  "AgentIdentity_init (pydantic (example_env answer)) (example_body (JStr ''false'')) = Some (example_agent False)"
  by (simp add: AgentIdentity_init_def field_def example_defs ascii_lower_def BOOL_FALSE_def)

lemma init_incomplete:
  "AgentIdentity_init V [(''verified'', JBool True)] = None"
  by (simp add: AgentIdentity_init_def field_def)

lemma verify_approved:
  "verify_agent (example_env approved) Map.empty ''did:x:1'' =
     \<lparr>returned = Some (example_agent True),
      cache_after = [''did:x:1'' \<mapsto> (1000000007, Some (example_agent True))],
      requests = [verify_url ''did:x:1'']\<rparr>"
proof -
  have "fetch (example_env approved) Map.empty ''did:x:1'' =
     \<lparr>returned = Some (example_agent True),
      cache_after = [''did:x:1'' \<mapsto> (now_store (example_env approved), Some (example_agent True))],
      requests = [verify_url ''did:x:1'']\<rparr>"
    by (rule fetch_approved [where data = "example_body (JBool True)"])
      (simp_all add: init_approved, simp_all add: example_defs get_truthy_def)
  then show ?thesis
    by (simp add: verify_agent_def example_env_def)
qed

lemma verify_denied:
  "verify_agent (example_env denied) Map.empty ''did:x:1'' =
     \<lparr>returned = None, cache_after = [''did:x:1'' \<mapsto> (1000000007, None)],
      requests = [verify_url ''did:x:1'']\<rparr>"
proof -
  have "fetch (example_env denied) Map.empty ''did:x:1'' =
     \<lparr>returned = None,
      cache_after = [''did:x:1'' \<mapsto> (now_store (example_env denied), None)],
      requests = [verify_url ''did:x:1'']\<rparr>"
    by (rule fetch_denied [where data = "example_body (JBool False)"])
      (simp_all add: example_defs get_truthy_def)
  then show ?thesis
    by (simp add: verify_agent_def example_env_def)
qed

lemma verify_denied_by_word:
  "verify_agent (example_env denied_by_word) Map.empty ''did:x:1'' =
     \<lparr>returned = Some (example_agent False),
      cache_after = [''did:x:1'' \<mapsto> (1000000007, Some (example_agent False))],
      requests = [verify_url ''did:x:1'']\<rparr>"
proof -
  have "fetch (example_env denied_by_word) Map.empty ''did:x:1'' =
     \<lparr>returned = Some (example_agent False),
      cache_after = [''did:x:1'' \<mapsto> (now_store (example_env denied_by_word), Some (example_agent False))],
      requests = [verify_url ''did:x:1'']\<rparr>"
    by (rule fetch_approved [where data = "example_body (JStr ''false'')"])
      (simp_all add: init_denied_by_word, simp_all add: example_defs get_truthy_def)
  then show ?thesis
    by (simp add: verify_agent_def example_env_def)
qed

lemma py_or_primary: "py_or (Some ''did:x:1'') h2 = Some ''did:x:1''"
  by (simp add: py_or_def header_truthy_def)

lemma require_approved:
  "returned (require_agent (example_env approved) Map.empty (Some ''did:x:1'') None) =
     Inr (example_agent True)"
  by (simp add: require_agent_def py_or_primary verify_approved)

section \<open>The claims\<close>

subsection \<open>C1: a fresh cache entry answers the call\<close>

text \<open>
  C1. When the cache holds an entry for the identifier and the clock at the lookup is before
  the entry's insertion time plus \<open>CACHE_TTL\<close>, \<open>verify_agent\<close> returns the value stored in
  the entry, be it a record or the absence of one, sends no request and leaves the cache as
  it was.
\<close>

theorem verify_agent_fresh_hit:
  assumes "c d = Some (cached_time, cached_data)"
    and "now_lookup e < cached_time + CACHE_TTL"
  shows "verify_agent e c d = \<lparr>returned = cached_data, cache_after = c, requests = []\<rparr>"
  using assms by (simp add: verify_agent_def)

theorem verify_agent_fresh_hit_witness:
  "verify_agent (example_env TransportError) [''did:x:1'' \<mapsto> (900000000, None)] ''did:x:1'' =
     \<lparr>returned = None, cache_after = [''did:x:1'' \<mapsto> (900000000, None)], requests = []\<rparr> \<and>
   verify_agent (example_env TransportError) [''did:x:1'' \<mapsto> (900000000, Some (example_agent True))]
       ''did:x:1'' =
     \<lparr>returned = Some (example_agent True),
      cache_after = [''did:x:1'' \<mapsto> (900000000, Some (example_agent True))], requests = []\<rparr>"
proof -
  have fresh: "now_lookup (example_env TransportError) < 900000000 + CACHE_TTL"
    by (simp add: example_env_def CACHE_TTL_def)
  have neg: "[''did:x:1'' \<mapsto> (900000000::int, None::AgentIdentity option)] ''did:x:1'' = Some (900000000, None)"
    by simp
  have pos: "[''did:x:1'' \<mapsto> (900000000::int, Some (example_agent True))] ''did:x:1'' =
      Some (900000000, Some (example_agent True))"
    by simp
  show ?thesis
    using verify_agent_fresh_hit [of "[''did:x:1'' \<mapsto> (900000000, None)]" "''did:x:1''" 900000000 None
        "example_env TransportError", OF neg fresh]
      verify_agent_fresh_hit [of "[''did:x:1'' \<mapsto> (900000000, Some (example_agent True))]"
        "''did:x:1''" 900000000 "Some (example_agent True)" "example_env TransportError", OF pos fresh]
    by simp
qed

subsection \<open>C2: a call that finds no fresh entry\<close>




subsection \<open>C3: failures are swallowed and not cached\<close>

text \<open>
  C3. Take a call that finds no fresh entry, so that the request is sent. If the request
  raises, or the response has a status code other than 200, or the response has status 200
  and its body cannot be decoded, or is no object, or has a true flag and does not validate
  as a record, then \<open>verify_agent\<close> returns absence as an ordinary result, and the cache is
  exactly the one before the call.
\<close>

theorem verify_agent_failure_not_cached:
  assumes "\<forall>t v. c d = Some (t, v) \<longrightarrow> \<not> now_lookup e < t + CACHE_TTL"
    and "remote e (verify_url d) = TransportError \<or>
         (\<exists>status body. remote e (verify_url d) = HttpResponse status body \<and> status \<noteq> 200) \<or>
         remote e (verify_url d) = HttpResponse 200 None \<or>
         (\<exists>j. remote e (verify_url d) = HttpResponse 200 (Some j) \<and> (\<forall>data. j \<noteq> JObj data)) \<or>
         (\<exists>data. remote e (verify_url d) = HttpResponse 200 (Some (JObj data)) \<and>
            get_truthy data ''verified'' \<and> AgentIdentity_init (pydantic e) data = None)"
  shows "verify_agent e c d = \<lparr>returned = None, cache_after = c, requests = [verify_url d]\<rparr>"
proof -
  have v: "verify_agent e c d = fetch e c d"
    using assms(1) by (rule miss_is_fetch)
  show ?thesis
  proof (cases "\<exists>status body. remote e (verify_url d) = HttpResponse status body \<and> status \<noteq> 200")
    case True
    then obtain status body where "remote e (verify_url d) = HttpResponse status body"
      and "status \<noteq> 200" by blast
    then show ?thesis unfolding v by (rule fetch_bad_status)
  next
    case False
    with assms(2) have "\<exists>ex. returned (try_body e c d) = Inl ex"
      unfolding try_body_raises_iff by blast
    then obtain ex where "returned (try_body e c d) = Inl ex" ..
    then show ?thesis unfolding v by (rule fetch_raised)
  qed
qed

theorem verify_agent_failure_not_cached_witness:
  "verify_agent (example_env TransportError) Map.empty ''did:x:1'' =
     \<lparr>returned = None, cache_after = Map.empty,
      requests = [''https://agent-identity.onrender.com/verify/did:x:1'']\<rparr> \<and>
   verify_agent (example_env (HttpResponse 503 None)) Map.empty ''did:x:1'' =
     \<lparr>returned = None, cache_after = Map.empty,
      requests = [''https://agent-identity.onrender.com/verify/did:x:1'']\<rparr> \<and>
   verify_agent (example_env (HttpResponse 200 None)) Map.empty ''did:x:1'' =
     \<lparr>returned = None, cache_after = Map.empty,
      requests = [''https://agent-identity.onrender.com/verify/did:x:1'']\<rparr> \<and>
   verify_agent (example_env (HttpResponse 200 (Some (JArr [])))) Map.empty ''did:x:1'' =
     \<lparr>returned = None, cache_after = Map.empty,
      requests = [''https://agent-identity.onrender.com/verify/did:x:1'']\<rparr> \<and>
   verify_agent (example_env incomplete) Map.empty ''did:x:1'' =
     \<lparr>returned = None, cache_after = Map.empty,
      requests = [''https://agent-identity.onrender.com/verify/did:x:1'']\<rparr> \<and>
   verify_agent (example_env TransportError)
       [''did:x:1'' \<mapsto> (5, Some (example_agent True))] ''did:x:1'' =
     \<lparr>returned = None, cache_after = [''did:x:1'' \<mapsto> (5, Some (example_agent True))],
      requests = [''https://agent-identity.onrender.com/verify/did:x:1'']\<rparr>"
proof -
  let ?failure = "\<lambda>e. remote e (verify_url ''did:x:1'') = TransportError \<or>
         (\<exists>status body. remote e (verify_url ''did:x:1'') = HttpResponse status body \<and>
            status \<noteq> 200) \<or>
         remote e (verify_url ''did:x:1'') = HttpResponse 200 None \<or>
         (\<exists>j. remote e (verify_url ''did:x:1'') = HttpResponse 200 (Some j) \<and>
            (\<forall>data. j \<noteq> JObj data)) \<or>
         (\<exists>data. remote e (verify_url ''did:x:1'') = HttpResponse 200 (Some (JObj data)) \<and>
            get_truthy data ''verified'' \<and> AgentIdentity_init (pydantic e) data = None)"
  have raised: "?failure (example_env TransportError)"
    by (simp add: example_env_def)
  have status: "?failure (example_env (HttpResponse 503 None))"
    by (simp add: example_env_def)
  have undecodable: "?failure (example_env (HttpResponse 200 None))"
    by (simp add: example_env_def)
  have no_object: "?failure (example_env (HttpResponse 200 (Some (JArr []))))"
    by (simp add: example_env_def)
  have "remote (example_env incomplete) (verify_url ''did:x:1'') =
        HttpResponse 200 (Some (JObj [(''verified'', JBool True)])) \<and>
      get_truthy [(''verified'', JBool True)] ''verified'' \<and>
      AgentIdentity_init (pydantic (example_env incomplete)) [(''verified'', JBool True)] = None"
    by (simp add: init_incomplete) (simp add: example_env_def incomplete_def get_truthy_def)
  then have invalid: "?failure (example_env incomplete)"
    by blast
  show ?thesis
    using
      verify_agent_failure_not_cached [of Map.empty "''did:x:1''" "example_env TransportError",
        OF example_miss raised]
      verify_agent_failure_not_cached [of Map.empty "''did:x:1''"
        "example_env (HttpResponse 503 None)", OF example_miss status]
      verify_agent_failure_not_cached [of Map.empty "''did:x:1''"
        "example_env (HttpResponse 200 None)", OF example_miss undecodable]
      verify_agent_failure_not_cached [of Map.empty "''did:x:1''"
        "example_env (HttpResponse 200 (Some (JArr [])))", OF example_miss no_object]
      verify_agent_failure_not_cached [of Map.empty "''did:x:1''" "example_env incomplete",
        OF example_miss invalid]
      verify_agent_failure_not_cached [of "[''did:x:1'' \<mapsto> (5, Some (example_agent True))]"
        "''did:x:1''" "example_env TransportError", OF example_stale raised]
    by (simp add: example_url)
qed

subsection \<open>C4: the gate that requires an identity\<close>

text \<open>
  C4. If neither header gives an identifier (each is missing or empty), \<open>require_agent\<close>
  fails with the 401 exception "Agent identity required", sends no request and leaves the
  cache alone. If a header gives the identifier \<open>d\<close>, that is, \<^verbatim>\<open>X-Agent-DID\<close> is \<open>d\<close> and
  not empty, or \<^verbatim>\<open>X-Agent-DID\<close> is missing or empty and \<^verbatim>\<open>X-Agent-Identity\<close> is \<open>d\<close> and not
  empty, the gate runs \<open>verify_agent\<close> on \<open>d\<close>: on absence it fails with the 401 exception
  "Agent not verified" whose detail holds \<open>d\<close> under the key \<open>did\<close>; on a record it
  returns that record.
\<close>

theorem require_agent_cases:
  "((h1 = None \<or> h1 = Some []) \<and> (h2 = None \<or> h2 = Some []) \<longrightarrow>
      require_agent e c h1 h2 =
        \<lparr>returned = Inl identity_required, cache_after = c, requests = []\<rparr>) \<and>
   (d \<noteq> [] \<and> (h1 = Some d \<or> (h1 = None \<or> h1 = Some []) \<and> h2 = Some d) \<longrightarrow>
      (returned (verify_agent e c d) = None \<longrightarrow>
         returned (require_agent e c h1 h2) = Inl (not_verified d)) \<and>
      (\<forall>agent. returned (verify_agent e c d) = Some agent \<longrightarrow>
         returned (require_agent e c h1 h2) = Inr agent) \<and>
      cache_after (require_agent e c h1 h2) = cache_after (verify_agent e c d) \<and>
      requests (require_agent e c h1 h2) = requests (verify_agent e c d)) \<and>
   status_code identity_required = 401 \<and>
   map_of (detail identity_required) ''error'' = Some (Text ''Agent identity required'') \<and>
   status_code (not_verified d) = 401 \<and>
   map_of (detail (not_verified d)) ''error'' = Some (Text ''Agent not verified'') \<and>
   map_of (detail (not_verified d)) ''did'' = Some (Text d)"
  by (auto simp: require_agent_def py_or_def header_truthy_def Let_def identity_required_def
      not_verified_def split: option.splits)

theorem require_agent_cases_witness:
  "require_agent (example_env approved) Map.empty None (Some []) =
     \<lparr>returned = Inl identity_required, cache_after = Map.empty, requests = []\<rparr> \<and>
   returned (require_agent (example_env denied) Map.empty (Some ''did:x:1'') None) =
     Inl (not_verified ''did:x:1'') \<and>
   returned (require_agent (example_env approved) Map.empty (Some ''did:x:1'') None) =
     Inr (example_agent True) \<and>
   returned (require_agent (example_env denied) Map.empty None (Some ''did:x:1'')) =
     Inl (not_verified ''did:x:1'') \<and>
   returned (require_agent (example_env approved) Map.empty None (Some ''did:x:1'')) =
     Inr (example_agent True) \<and>
   requests (require_agent (example_env approved) Map.empty None (Some ''did:x:1'')) =
     [''https://agent-identity.onrender.com/verify/did:x:1''] \<and>
   returned (require_agent (example_env approved) Map.empty (Some []) (Some ''did:x:1'')) =
     Inr (example_agent True)"
proof -
  have none: "(None = None \<or> None = Some []) \<and> (Some [] = None \<or> Some [] = Some ([] :: string))"
    by simp
  have primary: "''did:x:1'' \<noteq> [] \<and> (Some ''did:x:1'' = Some ''did:x:1'' \<or>
      (Some ''did:x:1'' = None \<or> Some ''did:x:1'' = Some []) \<and> None = Some ''did:x:1'')"
    by simp
  have fallback: "''did:x:1'' \<noteq> [] \<and> (None = Some ''did:x:1'' \<or>
      (None = None \<or> None = Some []) \<and> Some ''did:x:1'' = Some ''did:x:1'')"
    by simp
  have empty_primary: "''did:x:1'' \<noteq> [] \<and> (Some [] = Some ''did:x:1'' \<or>
      (Some [] = None \<or> Some [] = Some []) \<and> Some ''did:x:1'' = Some ''did:x:1'')"
    by simp
  have d: "returned (verify_agent (example_env denied) Map.empty ''did:x:1'') = None"
    by (simp add: verify_denied)
  have a: "returned (verify_agent (example_env approved) Map.empty ''did:x:1'') =
      Some (example_agent True)"
    and q: "requests (verify_agent (example_env approved) Map.empty ''did:x:1'') =
      [''https://agent-identity.onrender.com/verify/did:x:1'']"
    by (simp_all add: verify_approved example_url)
  from require_agent_cases [of None "Some []" "example_env approved" Map.empty] none
  have "require_agent (example_env approved) Map.empty None (Some []) =
     \<lparr>returned = Inl identity_required, cache_after = Map.empty, requests = []\<rparr>"
    by blast
  moreover from require_agent_cases [of "Some ''did:x:1''" None "example_env denied" Map.empty
      "''did:x:1''"] primary d
  have "returned (require_agent (example_env denied) Map.empty (Some ''did:x:1'') None) =
     Inl (not_verified ''did:x:1'')"
    by blast
  moreover from require_agent_cases [of "Some ''did:x:1''" None "example_env approved" Map.empty
      "''did:x:1''"] primary a
  have "returned (require_agent (example_env approved) Map.empty (Some ''did:x:1'') None) =
     Inr (example_agent True)"
    by blast
  moreover from require_agent_cases [of None "Some ''did:x:1''" "example_env denied" Map.empty
      "''did:x:1''"] fallback d
  have "returned (require_agent (example_env denied) Map.empty None (Some ''did:x:1'')) =
     Inl (not_verified ''did:x:1'')"
    by blast
  moreover from require_agent_cases [of None "Some ''did:x:1''" "example_env approved" Map.empty
      "''did:x:1''"] fallback a q
  have "returned (require_agent (example_env approved) Map.empty None (Some ''did:x:1'')) =
     Inr (example_agent True) \<and>
   requests (require_agent (example_env approved) Map.empty None (Some ''did:x:1'')) =
     [''https://agent-identity.onrender.com/verify/did:x:1'']"
    by simp
  moreover from require_agent_cases [of "Some []" "Some ''did:x:1''" "example_env approved"
      Map.empty "''did:x:1''"] empty_primary a
  have "returned (require_agent (example_env approved) Map.empty (Some []) (Some ''did:x:1'')) =
     Inr (example_agent True)"
    by blast
  ultimately show ?thesis by simp
qed

subsection \<open>C5: the gate with a reputation threshold\<close>

text \<open>
  C5. The gate made by \<open>require_reputation T\<close> runs \<open>require_agent\<close> first and has its
  requests and its cache. If \<open>require_agent\<close> returns a record whose reputation is at least
  \<open>T\<close>, the gate returns the same record; if the reputation is below \<open>T\<close>, it fails with
  the 403 exception "Insufficient reputation", whose message is formatted from \<open>T\<close> and whose
  detail holds the record's reputation; if \<open>require_agent\<close> fails, the gate fails in the
  same way, whatever \<open>T\<close> is.
\<close>

theorem require_reputation_cases:
  "(\<forall>agent. returned (require_agent e c h1 h2) = Inr agent \<longrightarrow>
      float_ge (reputation agent) T \<longrightarrow>
      require_reputation T e c h1 h2 = require_agent e c h1 h2) \<and>
   (\<forall>agent. returned (require_agent e c h1 h2) = Inr agent \<longrightarrow>
      float_lt (reputation agent) T \<longrightarrow>
      returned (require_reputation T e c h1 h2) = Inl (insufficient_reputation T agent)) \<and>
   (\<forall>ex. returned (require_agent e c h1 h2) = Inl ex \<longrightarrow>
      require_reputation T e c h1 h2 = require_agent e c h1 h2) \<and>
   cache_after (require_reputation T e c h1 h2) = cache_after (require_agent e c h1 h2) \<and>
   requests (require_reputation T e c h1 h2) = requests (require_agent e c h1 h2) \<and>
   status_code (insufficient_reputation T agent) = 403 \<and>
   map_of (detail (insufficient_reputation T agent)) ''error'' =
     Some (Text ''Insufficient reputation'') \<and>
   map_of (detail (insufficient_reputation T agent)) ''message'' =
     Some (Formatted [Lit ''This endpoint requires minimum '', Arg T, Lit '' reputation'']) \<and>
   map_of (detail (insufficient_reputation T agent)) ''your_reputation'' =
     Some (Number (reputation agent))"
  by (auto simp: require_reputation_def Let_def float_ge_def insufficient_reputation_def
      split: sum.splits)

theorem require_reputation_cases_witness:
  "returned (require_reputation (Fin 4) (example_env approved) Map.empty (Some ''did:x:1'') None) =
     Inr (example_agent True) \<and>
   returned (require_reputation (Fin 5) (example_env approved) Map.empty (Some ''did:x:1'') None) =
     Inl (insufficient_reputation (Fin 5) (example_agent True)) \<and>
   returned (require_reputation (Fin 5) (example_env approved) Map.empty None None) =
     Inl identity_required"
proof -
  have ge: "float_ge (reputation (example_agent True)) (Fin 4)"
    and lt: "float_lt (reputation (example_agent True)) (Fin 5)"
    by (simp_all add: example_agent_def float_ge_def)
  have none: "returned (require_agent (example_env approved) Map.empty None None) =
      Inl identity_required"
    by (simp add: require_agent_def py_or_def header_truthy_def)
  from require_reputation_cases [of "example_env approved" Map.empty "Some ''did:x:1''" None "Fin 4"]
    require_approved ge
  have "require_reputation (Fin 4) (example_env approved) Map.empty (Some ''did:x:1'') None =
      require_agent (example_env approved) Map.empty (Some ''did:x:1'') None"
    by blast
  moreover from require_reputation_cases [of "example_env approved" Map.empty "Some ''did:x:1''"
      None "Fin 5"] require_approved lt
  have "returned (require_reputation (Fin 5) (example_env approved) Map.empty (Some ''did:x:1'') None) =
     Inl (insufficient_reputation (Fin 5) (example_agent True))"
    by blast
  moreover from require_reputation_cases [of "example_env approved" Map.empty None None "Fin 5"]
    none
  have "require_reputation (Fin 5) (example_env approved) Map.empty None None =
      require_agent (example_env approved) Map.empty None None"
    by blast
  ultimately show ?thesis
    by (simp add: require_approved none)
qed

subsection \<open>C6: the gate that tolerates a missing identity\<close>

text \<open>
  C6. If neither header gives an identifier (each is missing or empty), \<open>optional_agent\<close>
  returns absence and sends no request. If a header gives the identifier \<open>d\<close>, that is,
  \<^verbatim>\<open>X-Agent-DID\<close> is \<open>d\<close> and not empty, or \<^verbatim>\<open>X-Agent-DID\<close> is missing or empty and
  \<^verbatim>\<open>X-Agent-Identity\<close> is \<open>d\<close> and not empty, the gate returns what \<open>verify_agent\<close> returns
  for \<open>d\<close>, with the verifier's requests and cache. It never ends in an exception.
\<close>

theorem optional_agent_cases:
  "((h1 = None \<or> h1 = Some []) \<and> (h2 = None \<or> h2 = Some []) \<longrightarrow>
      optional_agent e c h1 h2 = \<lparr>returned = Inr None, cache_after = c, requests = []\<rparr>) \<and>
   (d \<noteq> [] \<and> (h1 = Some d \<or> (h1 = None \<or> h1 = Some []) \<and> h2 = Some d) \<longrightarrow>
      optional_agent e c h1 h2 =
        \<lparr>returned = Inr (returned (verify_agent e c d)),
         cache_after = cache_after (verify_agent e c d),
         requests = requests (verify_agent e c d)\<rparr>) \<and>
   (\<exists>v. returned (optional_agent e c h1 h2) = Inr v)"
  by (auto simp: optional_agent_def py_or_def header_truthy_def Let_def split: option.splits)

theorem optional_agent_cases_witness:
  "optional_agent (example_env approved) Map.empty (Some []) None =
     \<lparr>returned = Inr None, cache_after = Map.empty, requests = []\<rparr> \<and>
   optional_agent (example_env denied) Map.empty (Some ''did:x:1'') None =
     \<lparr>returned = Inr None, cache_after = [''did:x:1'' \<mapsto> (1000000007, None)],
      requests = [''https://agent-identity.onrender.com/verify/did:x:1'']\<rparr> \<and>
   optional_agent (example_env approved) Map.empty (Some ''did:x:1'') None =
     \<lparr>returned = Inr (Some (example_agent True)),
      cache_after = [''did:x:1'' \<mapsto> (1000000007, Some (example_agent True))],
      requests = [''https://agent-identity.onrender.com/verify/did:x:1'']\<rparr> \<and>
   optional_agent (example_env approved) Map.empty None (Some ''did:x:1'') =
     \<lparr>returned = Inr (Some (example_agent True)),
      cache_after = [''did:x:1'' \<mapsto> (1000000007, Some (example_agent True))],
      requests = [''https://agent-identity.onrender.com/verify/did:x:1'']\<rparr> \<and>
   optional_agent (example_env denied) Map.empty (Some []) (Some ''did:x:1'') =
     \<lparr>returned = Inr None, cache_after = [''did:x:1'' \<mapsto> (1000000007, None)],
      requests = [''https://agent-identity.onrender.com/verify/did:x:1'']\<rparr>"
proof -
  have none: "(Some [] = None \<or> Some [] = Some ([] :: string)) \<and> (None = None \<or> None = Some ([] :: string))"
    by simp
  have primary: "''did:x:1'' \<noteq> [] \<and> (Some ''did:x:1'' = Some ''did:x:1'' \<or>
      (Some ''did:x:1'' = None \<or> Some ''did:x:1'' = Some []) \<and> None = Some ''did:x:1'')"
    by simp
  have fallback: "''did:x:1'' \<noteq> [] \<and> (None = Some ''did:x:1'' \<or>
      (None = None \<or> None = Some []) \<and> Some ''did:x:1'' = Some ''did:x:1'')"
    by simp
  have empty_primary: "''did:x:1'' \<noteq> [] \<and> (Some [] = Some ''did:x:1'' \<or>
      (Some [] = None \<or> Some [] = Some []) \<and> Some ''did:x:1'' = Some ''did:x:1'')"
    by simp
  from optional_agent_cases [of "Some []" None "example_env approved" Map.empty] none
  have "optional_agent (example_env approved) Map.empty (Some []) None =
     \<lparr>returned = Inr None, cache_after = Map.empty, requests = []\<rparr>"
    by blast
  moreover from optional_agent_cases [of "Some ''did:x:1''" None "example_env denied" Map.empty
      "''did:x:1''"] primary
  have "optional_agent (example_env denied) Map.empty (Some ''did:x:1'') None =
     \<lparr>returned = Inr (returned (verify_agent (example_env denied) Map.empty ''did:x:1'')),
      cache_after = cache_after (verify_agent (example_env denied) Map.empty ''did:x:1''),
      requests = requests (verify_agent (example_env denied) Map.empty ''did:x:1'')\<rparr>"
    by blast
  moreover from optional_agent_cases [of "Some ''did:x:1''" None "example_env approved" Map.empty
      "''did:x:1''"] primary
  have "optional_agent (example_env approved) Map.empty (Some ''did:x:1'') None =
     \<lparr>returned = Inr (returned (verify_agent (example_env approved) Map.empty ''did:x:1'')),
      cache_after = cache_after (verify_agent (example_env approved) Map.empty ''did:x:1''),
      requests = requests (verify_agent (example_env approved) Map.empty ''did:x:1'')\<rparr>"
    by blast
  moreover from optional_agent_cases [of None "Some ''did:x:1''" "example_env approved" Map.empty
      "''did:x:1''"] fallback
  have "optional_agent (example_env approved) Map.empty None (Some ''did:x:1'') =
     \<lparr>returned = Inr (returned (verify_agent (example_env approved) Map.empty ''did:x:1'')),
      cache_after = cache_after (verify_agent (example_env approved) Map.empty ''did:x:1''),
      requests = requests (verify_agent (example_env approved) Map.empty ''did:x:1'')\<rparr>"
    by blast
  moreover from optional_agent_cases [of "Some []" "Some ''did:x:1''" "example_env denied"
      Map.empty "''did:x:1''"] empty_primary
  have "optional_agent (example_env denied) Map.empty (Some []) (Some ''did:x:1'') =
     \<lparr>returned = Inr (returned (verify_agent (example_env denied) Map.empty ''did:x:1'')),
      cache_after = cache_after (verify_agent (example_env denied) Map.empty ''did:x:1''),
      requests = requests (verify_agent (example_env denied) Map.empty ''did:x:1'')\<rparr>"
    by blast
  ultimately show ?thesis
    by (simp add: verify_approved verify_denied example_url)
qed

subsection \<open>C7: which header is taken\<close>

text \<open>
  C7 as it is written fails: with the primary header present but empty and the fallback
  header \<open>did:x:1\<close>, the first header present is the primary one, yet both gates take the
  fallback header and verify it.
\<close>

theorem header_selection_counterexample:
  "spec_first_present (Some []) (Some ''did:x:1'') = Some [] \<and>
   py_or (Some []) (Some ''did:x:1'') = Some ''did:x:1'' \<and>
   returned (require_agent (example_env approved) Map.empty (Some []) (Some ''did:x:1'')) =
     Inr (example_agent True) \<and>
   requests (optional_agent (example_env approved) Map.empty (Some []) (Some ''did:x:1'')) =
     [''https://agent-identity.onrender.com/verify/did:x:1'']"
  by (simp add: spec_first_present_def py_or_def header_truthy_def require_agent_def
      optional_agent_def verify_approved example_url)

text \<open>
  C7, amended. Both gates take the primary header \<^verbatim>\<open>X-Agent-DID\<close> when it is present and
  not empty, and the fallback header \<^verbatim>\<open>X-Agent-Identity\<close> otherwise: an empty primary header
  counts as a missing one.
\<close>

theorem header_selection:
  "(h1 = Some d \<and> d \<noteq> [] \<longrightarrow>
      py_or h1 h2 = Some d \<and>
      require_agent e c h1 h2 = require_agent e c (Some d) None \<and>
      optional_agent e c h1 h2 = optional_agent e c (Some d) None) \<and>
   (h1 = None \<or> h1 = Some [] \<longrightarrow>
      py_or h1 h2 = h2 \<and>
      require_agent e c h1 h2 = require_agent e c None h2 \<and>
      optional_agent e c h1 h2 = optional_agent e c None h2)"
  by (auto simp: require_agent_def optional_agent_def py_or_def header_truthy_def)

theorem header_selection_witness:
  "py_or (Some ''did:x:1'') (Some ''did:y:2'') = Some ''did:x:1'' \<and>
   require_agent (example_env approved) Map.empty (Some ''did:x:1'') (Some ''did:y:2'') =
     require_agent (example_env approved) Map.empty (Some ''did:x:1'') None \<and>
   optional_agent (example_env approved) Map.empty (Some ''did:x:1'') (Some ''did:y:2'') =
     optional_agent (example_env approved) Map.empty (Some ''did:x:1'') None \<and>
   py_or (Some []) (Some ''did:y:2'') = Some ''did:y:2'' \<and>
   require_agent (example_env approved) Map.empty (Some []) (Some ''did:y:2'') =
     require_agent (example_env approved) Map.empty None (Some ''did:y:2'') \<and>
   optional_agent (example_env approved) Map.empty (Some []) (Some ''did:y:2'') =
     optional_agent (example_env approved) Map.empty None (Some ''did:y:2'')"
proof -
  have p: "Some ''did:x:1'' = Some ''did:x:1'' \<and> ''did:x:1'' \<noteq> []"
    and q: "Some [] = None \<or> Some [] = Some ([] :: string)"
    by simp_all
  from header_selection [of "Some ''did:x:1''" "''did:x:1''" "Some ''did:y:2''"
      "example_env approved" Map.empty] p
  have "py_or (Some ''did:x:1'') (Some ''did:y:2'') = Some ''did:x:1'' \<and>
   require_agent (example_env approved) Map.empty (Some ''did:x:1'') (Some ''did:y:2'') =
     require_agent (example_env approved) Map.empty (Some ''did:x:1'') None \<and>
   optional_agent (example_env approved) Map.empty (Some ''did:x:1'') (Some ''did:y:2'') =
     optional_agent (example_env approved) Map.empty (Some ''did:x:1'') None"
    by blast
  moreover from header_selection [of "Some []" "''did:x:1''" "Some ''did:y:2''"
      "example_env approved" Map.empty] q
  have "py_or (Some []) (Some ''did:y:2'') = Some ''did:y:2'' \<and>
   require_agent (example_env approved) Map.empty (Some []) (Some ''did:y:2'') =
     require_agent (example_env approved) Map.empty None (Some ''did:y:2'') \<and>
   optional_agent (example_env approved) Map.empty (Some []) (Some ''did:y:2'') =
     optional_agent (example_env approved) Map.empty None (Some ''did:y:2'')"
    by blast
  ultimately show ?thesis by blast
qed

subsection \<open>C8: no operation removes a cache entry\<close>

text \<open>
  C8. After \<open>verify_agent\<close>, \<open>require_agent\<close>, \<open>optional_agent\<close> and every gate made by
  \<open>require_reputation\<close>, from every cache, the keys of the cache include the keys it had
  before. The verifier leaves the cache as it was or overwrites the entry of its own
  argument.
\<close>

theorem cache_keys_kept:
  "dom c \<subseteq> dom (cache_after (verify_agent e c d)) \<and>
   dom c \<subseteq> dom (cache_after (require_agent e c h1 h2)) \<and>
   dom c \<subseteq> dom (cache_after (optional_agent e c h1 h2)) \<and>
   dom c \<subseteq> dom (cache_after (require_reputation T e c h1 h2)) \<and>
   (cache_after (verify_agent e c d) = c \<or>
    (\<exists>v. cache_after (verify_agent e c d) = c(d \<mapsto> (now_store e, v))))"
proof -
  have v: "dom c \<subseteq> dom (cache_after (verify_agent e c k))" for k
    using verify_agent_cache_cases [of e c k] by auto
  have r: "dom c \<subseteq> dom (cache_after (require_agent e c h1 h2))"
    using require_agent_cache_cases [of e c h1 h2] by (elim disjE exE) (simp_all add: v)
  have p: "dom c \<subseteq> dom (cache_after (optional_agent e c h1 h2))"
    using optional_agent_cache_cases [of e c h1 h2] by (elim disjE exE) (simp_all add: v)
  show ?thesis
    using v r p verify_agent_cache_cases [of e c d] by (simp add: require_reputation_cache)
qed

subsection \<open>C9: the flag of the records returned and stored\<close>

text \<open>
  C9 says that a record returned by \<open>verify_agent\<close>, and every record stored in the cache,
  has its \<open>verified\<close> field true, as the docstrings of \<open>verify_agent\<close> ("Returns
  AgentIdentity if verified, None otherwise") and of \<open>require_agent\<close> ("Raises 401
  HTTPException if agent is not verified") promise. The code misses it: line 75 tests the
  raw flag of the body for Python truth, and line 76 validates it afterwards. The string
  \<open>false\<close> is true for Python and is converted to \<open>False\<close> by the validation. For the
  response with status 200 whose body has \<open>"verified": "false"\<close> and valid other fields,
  \<open>verify_agent\<close> returns a record whose \<open>verified\<close> field is false and stores it in the
  cache, and \<open>require_agent\<close> admits the request with that record.
\<close>

theorem verify_agent_returns_unverified:
  "remote (example_env denied_by_word) (verify_url ''did:x:1'') =
     HttpResponse 200 (Some (JObj (example_body (JStr ''false'')))) \<and>
   returned (verify_agent (example_env denied_by_word) Map.empty ''did:x:1'') =
     Some (example_agent False) \<and>
   cache_after (verify_agent (example_env denied_by_word) Map.empty ''did:x:1'') ''did:x:1'' =
     Some (1000000007, Some (example_agent False)) \<and>
   returned (require_agent (example_env denied_by_word) Map.empty (Some ''did:x:1'') None) =
     Inr (example_agent False) \<and>
   verified (example_agent False) = False"
  by (simp add: verify_denied_by_word require_agent_def py_or_primary)
    (simp add: example_agent_def example_env_def denied_by_word_def)

subsection \<open>C10: the verifier touches only the entry of its argument\<close>

text \<open>
  C10. For every key other than the argument of \<open>verify_agent\<close>, the entry under that key,
  timestamp and value, is after the call what it was before.
\<close>

theorem verify_agent_frame:
  assumes "k \<noteq> d"
  shows "cache_after (verify_agent e c d) k = c k"
  using assms verify_agent_cache_cases [of e c d] by auto

theorem verify_agent_frame_witness:
  "cache_after (verify_agent (example_env approved) [''did:y:2'' \<mapsto> (5, None)] ''did:x:1'')
     ''did:y:2'' = Some (5, None)"
proof -
  have "''did:y:2'' \<noteq> ''did:x:1''" by simp
  from verify_agent_frame [OF this, of "example_env approved" "[''did:y:2'' \<mapsto> (5, None)]"]
  show ?thesis by simp
qed

end
